theory Spec2Isabelle
  imports Main
begin

section \<open>The sqlite3 client of knex: \<^verbatim>\<open>src/clients/sqlite3.js\<close>\<close>

subsection \<open>JavaScript values and errors\<close>

text \<open>
  A thrown JavaScript exception is a value of \<open>error\<close>; a function that can throw
  returns \<open>error + 'a\<close>, with \<open>Inl\<close> the exception. \<open>Error\<close> is
  \<^verbatim>\<open>new Error(msg)\<close>; the two others are raised by the language itself: a
  property read on \<^verbatim>\<open>undefined\<close> or \<^verbatim>\<open>false\<close>, and a free identifier
  that no scope binds.
\<close>

datatype error = Error string | TypeError string | ReferenceError string

text \<open>
  The values a row or a column default can hold. Numbers are the integers and
  \<^verbatim>\<open>NaN\<close> (all that truthiness looks at is whether a number is zero or
  \<^verbatim>\<open>NaN\<close>); \<open>Raw\<close> is an object, such as a raw SQL fragment.
\<close>

datatype js_value = Undefined | Null | Bool bool | Num int | NaN | Str string | Raw string

text \<open>What \<^verbatim>\<open>if (v)\<close> tests.\<close>

fun truthy :: "js_value \<Rightarrow> bool" where
  "truthy Undefined = False"
| "truthy Null = False"
| "truthy (Bool b) = b"
| "truthy (Num n) = (n \<noteq> 0)"
| "truthy NaN = False"
| "truthy (Str s) = (s \<noteq> [])"
| "truthy (Raw s) = True"

text \<open>
  An object literal is an association list: its keys are distinct and keep their
  insertion order, which is the order \<^verbatim>\<open>_.keys\<close> returns.
\<close>

type_synonym row = "(string \<times> js_value) list"

definition keys :: "row \<Rightarrow> string list" where
  "keys obj = map fst obj"

text \<open>\<^verbatim>\<open>Array.prototype.join\<close> on an array of strings.\<close>

fun join :: "string list \<Rightarrow> string \<Rightarrow> string" where
  "join [] sep = []"
| "join [x] sep = x"
| "join (x # y # ys) sep = x @ sep @ join (y # ys) sep"

subsection \<open>Descriptors\<close>

text \<open>
  The query builder handed to the grammar. The source reads \<^verbatim>\<open>qb.table\<close> in
  \<^verbatim>\<open>compileInsert\<close> and \<^verbatim>\<open>qb.from\<close> in \<^verbatim>\<open>compileTruncate\<close>
  (\<open>from\<close> is an Isar keyword, hence \<open>qb_from\<close>).
\<close>

record query_builder =
  table :: string
  qb_from :: string

record order_spec =
  column :: string
  direction :: string

text \<open>
  A schema command, with the fields the create-table compiler reads:
  \<^verbatim>\<open>name\<close>, \<^verbatim>\<open>columns\<close>, and for a foreign key \<^verbatim>\<open>on\<close> and
  \<^verbatim>\<open>references\<close>.
\<close>

record command =
  name :: string
  columns :: "string list"
  on :: string
  references :: "string list"

record column_definition =
  col_name :: string
  col_type :: string
  nullable :: bool
  defaultValue :: js_value
  autoIncrement :: bool

record blueprint =
  bp_table :: string
  bp_columns :: "column_definition list"
  commands :: "command list"

text \<open>
  \<^verbatim>\<open>wrapTable\<close> is called on a table name (\<^verbatim>\<open>qb.table\<close>,
  \<^verbatim>\<open>foreign.on\<close>) and on a whole blueprint.
\<close>

datatype table_ref = TableName string | TableOf blueprint

subsection \<open>The helpers of the generic grammar\<close>

text \<open>
  The methods the client calls on \<^verbatim>\<open>this\<close> but does not define: they come from
  the generic grammar of \<^verbatim>\<open>../knex\<close>, which is not part of this file. They are
  parameters of the model. \<open>Grammar_compileInsert\<close> is
  \<^verbatim>\<open>require('../knex').Grammar.prototype.compileInsert\<close>, with any type \<open>'o\<close> of
  output.
\<close>

record 'o base_grammar =
  wrap :: "string \<Rightarrow> string"
  wrapTable :: "table_ref \<Rightarrow> string"
  columnize :: "string list \<Rightarrow> string"
  parameterize :: "row option \<Rightarrow> string"
  getColumns :: "blueprint \<Rightarrow> string list"
  getDefaultValue :: "js_value \<Rightarrow> string"
  Grammar_compileInsert :: "query_builder \<Rightarrow> row list \<Rightarrow> 'o"

text \<open>
  Modelled from the spec: the command lookup by name of the generic schema grammar
  (\<^verbatim>\<open>getCommandsByName\<close>, \<^verbatim>\<open>getCommandByName\<close>), which the spec lists among
  the capabilities the query-builder core provides: the blueprint's commands of that
  name in their order, and the first of them (\<^verbatim>\<open>undefined\<close> when there is none).
\<close>

definition getCommandsByName :: "blueprint \<Rightarrow> string \<Rightarrow> command list" where
  "getCommandsByName bp n = filter (\<lambda>c. name c = n) (commands bp)"

definition getCommandByName :: "blueprint \<Rightarrow> string \<Rightarrow> command option" where
  "getCommandByName bp n =
     (case getCommandsByName bp n of [] \<Rightarrow> None | c # _ \<Rightarrow> Some c)"

text \<open>
  Modelled from the spec: the bound parameter list of an insert, which the
  query-builder core builds (\<^verbatim>\<open>compileInsert\<close> returns the SQL text alone: its
  \<^verbatim>\<open>parameters\<close> variable is never used). The spec: parameters are bound
  positionally, row by row, in the same order as the generated placeholders, whose
  columns are the first row's keys. A key that a row lacks reads as
  \<^verbatim>\<open>undefined\<close>.
\<close>

definition row_value :: "row \<Rightarrow> string \<Rightarrow> js_value" where
  "row_value r k = (case map_of r k of None \<Rightarrow> Undefined | Some v \<Rightarrow> v)"

definition insertBindings :: "row list \<Rightarrow> js_value list" where
  "insertBindings rows =
     (case rows of
        [] \<Rightarrow> []
      | r0 # _ \<Rightarrow> concat (map (\<lambda>r. map (row_value r) (keys r0)) rows))"

subsection \<open>The query grammar\<close>

text \<open>
  \<^verbatim>\<open>util.format('"%s"', value)\<close> puts the value between two double quotes
  (character 0x22).
\<close>

definition wrapValue :: "string \<Rightarrow> string" where
  "wrapValue v = (if v \<noteq> ''*'' then [CHR 0x22] @ v @ [CHR 0x22] else ''*'')"

text \<open>
  \<^verbatim>\<open>compileOrders\<close>: \<^verbatim>\<open>undefined\<close> (\<open>None\<close>) for the empty array, the
  clause otherwise.
\<close>

definition compileOrders ::
  "'o base_grammar \<Rightarrow> query_builder \<Rightarrow> order_spec list \<Rightarrow> string option" where
  "compileOrders g qb orders =
     (if length orders = 0 then None
      else Some (''order by '' @
        join (map (\<lambda>order. wrap g (column order) @ '' collate nocase '' @ direction order)
                orders) '', ''))"

text \<open>
  The two loops of \<^verbatim>\<open>compileInsert\<close>, each pushing onto \<^verbatim>\<open>columns\<close> while
  \<^verbatim>\<open>i < l\<close>.
\<close>

function push_key_columns ::
  "'o base_grammar \<Rightarrow> string list \<Rightarrow> nat \<Rightarrow> nat \<Rightarrow> string list \<Rightarrow> string list" where
  "push_key_columns g ks i l cols =
     (if i < l
      then push_key_columns g ks (i + 1) l (cols @ [''? as '' @ wrap g (ks ! i)])
      else cols)"
  by pat_completeness auto
termination
  by (relation "measure (\<lambda>(g, ks, i, l, cols). l - i)") auto

function push_joined_columns :: "string \<Rightarrow> nat \<Rightarrow> nat \<Rightarrow> string list \<Rightarrow> string list" where
  "push_joined_columns joinedColumns i l cols =
     (if i < l then push_joined_columns joinedColumns (i + 1) l (cols @ [joinedColumns])
      else cols)"
  by pat_completeness auto
termination
  by (relation "measure (\<lambda>(joinedColumns, i, l, cols). l - i)") auto

text \<open>
  The argument of \<^verbatim>\<open>compileInsert\<close>: one row object, or an array of rows
  (\<^verbatim>\<open>if (!_.isArray(values)) values = [values]\<close>).
\<close>

datatype insert_values = One row | Many "row list"

text \<open>
  What \<^verbatim>\<open>compileInsert\<close> returns: the generic compiler's output, or the text it
  builds itself.
\<close>

datatype 'o insert_output = Generic 'o | Sql string

text \<open>
  \<^verbatim>\<open>compileInsert\<close>. With no row at all, \<^verbatim>\<open>values[0]\<close> is
  \<^verbatim>\<open>undefined\<close> and \<^verbatim>\<open>_.keys\<close> throws a TypeError.
\<close>

definition compileInsert ::
  "'o base_grammar \<Rightarrow> query_builder \<Rightarrow> insert_values \<Rightarrow> error + 'o insert_output" where
  "compileInsert g qb vals =
     (let values = (case vals of One r \<Rightarrow> [r] | Many rs \<Rightarrow> rs);
          tbl = wrapTable g (TableName (table qb));
          parameters = parameterize g (case values of [] \<Rightarrow> None | r # _ \<Rightarrow> Some r)
      in if length values = 1 then Inr (Generic (Grammar_compileInsert g qb values))
         else (case values of
                 [] \<Rightarrow> Inl (TypeError ''Object.keys called on non-object'')
               | r0 # _ \<Rightarrow>
                   (let ks = keys r0;
                        names = columnize g ks;
                        cols = push_key_columns g ks 0 (length ks) [];
                        joinedColumns = join cols '', '';
                        cols' = push_joined_columns joinedColumns 0 (length values) []
                    in Inr (Sql (''insert into '' @ tbl @ '' ('' @ names @ '') select '' @
                                 join cols' '' union select '')))))"

text \<open>
  \<^verbatim>\<open>compileTruncate\<close>. Its second statement reads \<^verbatim>\<open>query.from\<close>, and
  \<^verbatim>\<open>query\<close> is neither a parameter nor a variable of the module (which declares
  \<^verbatim>\<open>init, debug, pool, connection, connectionSettings\<close>), so the identifier is
  looked up in the global scope, \<open>globals\<close>: a ReferenceError when it is not bound
  there. The object returned is the list of its (statement, bindings) entries in
  insertion order; assigning an existing key replaces its value in place.
\<close>

fun assign :: "(string \<times> 'a) list \<Rightarrow> string \<Rightarrow> 'a \<Rightarrow> (string \<times> 'a) list" where
  "assign [] k v = [(k, v)]"
| "assign ((k', v') # kvs) k v =
     (if k' = k then (k, v) # kvs else (k', v') # assign kvs k v)"

definition compileTruncate ::
  "'o base_grammar \<Rightarrow> (string \<rightharpoonup> query_builder) \<Rightarrow> query_builder \<Rightarrow>
   error + (string \<times> string list) list" where
  "compileTruncate g globals qb =
     (let sql = [];
          sql = assign sql ''delete from sqlite_sequence where name = ?'' [qb_from qb]
      in case globals ''query'' of
           None \<Rightarrow> Inl (ReferenceError ''query is not defined'')
         | Some query \<Rightarrow>
             Inr (assign sql (''delete from '' @ wrapTable g (TableName (qb_from query))) []))"

subsection \<open>The schema grammar\<close>

text \<open>The loop of \<^verbatim>\<open>addForeignKeys\<close>, appending one clause to \<^verbatim>\<open>sql\<close> a turn.\<close>

function foreign_loop ::
  "'o base_grammar \<Rightarrow> command list \<Rightarrow> nat \<Rightarrow> nat \<Rightarrow> string \<Rightarrow> string" where
  "foreign_loop g foreigns i l sql =
     (if i < l
      then (let foreign = foreigns ! i;
                on' = wrapTable g (TableName (on foreign));
                cols = columnize g (columns foreign);
                onColumns = columnize g (references foreign)
            in foreign_loop g foreigns (i + 1) l
                 (sql @ '', foreign key('' @ cols @ '') references '' @ on' @
                    ''('' @ onColumns @ '')''))
      else sql)"
  by pat_completeness auto
termination
  by (relation "measure (\<lambda>(g, foreigns, i, l, sql). l - i)") auto

definition addForeignKeys :: "'o base_grammar \<Rightarrow> blueprint \<Rightarrow> string" where
  "addForeignKeys g bp =
     (let foreigns = getCommandsByName bp ''foreign''
      in foreign_loop g foreigns 0 (length foreigns) [])"

definition addPrimaryKeys :: "'o base_grammar \<Rightarrow> blueprint \<Rightarrow> string option" where
  "addPrimaryKeys g bp =
     (case getCommandByName bp ''primary'' of
        Some primary \<Rightarrow> Some ('', primary key ('' @ columnize g (columns primary) @ '')'')
      | None \<Rightarrow> None)"

definition compileCreateTable :: "'o base_grammar \<Rightarrow> blueprint \<Rightarrow> command \<Rightarrow> string" where
  "compileCreateTable g bp cmd =
     (let cols = join (getColumns g bp) '', '';
          sql = ''create table '' @ wrapTable g (TableOf bp) @ '' ('' @ cols;
          sql = sql @ addForeignKeys g bp;
          sql = sql @ (case addPrimaryKeys g bp of Some s \<Rightarrow> s | None \<Rightarrow> [])
      in sql @ '')'')"

text \<open>\<^verbatim>\<open>compileForeign\<close> has an empty body: it returns \<^verbatim>\<open>undefined\<close>.\<close>

definition compileForeign :: "'o base_grammar \<Rightarrow> blueprint \<Rightarrow> command \<Rightarrow> string option" where
  "compileForeign g bp cmd = None"

definition compileDropColumn :: "'o base_grammar \<Rightarrow> blueprint \<Rightarrow> command \<Rightarrow> error + string" where
  "compileDropColumn g bp cmd = Inl (Error ''Drop column not supported for SQLite.'')"

definition modifyNullable :: "'o base_grammar \<Rightarrow> blueprint \<Rightarrow> column_definition \<Rightarrow> string" where
  "modifyNullable g bp col = (if nullable col then '' null'' else '' not null'')"

definition modifyDefault ::
  "'o base_grammar \<Rightarrow> blueprint \<Rightarrow> column_definition \<Rightarrow> string option" where
  "modifyDefault g bp col =
     (if truthy (defaultValue col)
      then Some ('' default '' @ [CHR 0x27] @ getDefaultValue g (defaultValue col) @ [CHR 0x27])
      else None)"

definition modifyIncrement ::
  "'o base_grammar \<Rightarrow> blueprint \<Rightarrow> column_definition \<Rightarrow> string option" where
  "modifyIncrement g bp col =
     (if col_type col = ''integer'' \<and> autoIncrement col
      then Some '' primary key autoincrement'' else None)"

subsection \<open>The connection manager\<close>

text \<open>
  A configuration object of the pool is the list of its entries, in insertion order.
  An entry is a plain value or a function: the module's own \<^verbatim>\<open>create\<close> (open a
  connection, run \<^verbatim>\<open>PRAGMA journal_mode=WAL;\<close>, hand it out) and
  \<^verbatim>\<open>destroy\<close> (close it), or one the caller supplies.
\<close>

datatype config_value = Val js_value | ModuleCreate | ModuleDestroy | CallerFunction string

type_synonym pool_settings = "(string \<times> config_value) list"

text \<open>\<^verbatim>\<open>_.extend(obj, source)\<close>: every entry of the source is assigned to the object.\<close>

fun extend_object :: "pool_settings \<Rightarrow> pool_settings \<Rightarrow> pool_settings" where
  "extend_object obj [] = obj"
| "extend_object obj ((k, v) # src) = extend_object (assign obj k v) src"

record connection_settings =
  filename :: string

text \<open>
  The \<^verbatim>\<open>pool\<close> entry of the options: absent, the value \<^verbatim>\<open>false\<close>, or an
  object of settings.
\<close>

datatype pool_option = PoolAbsent | PoolFalse | PoolSettings pool_settings

record options =
  opt_connection :: "connection_settings option"
  opt_debug :: js_value
  opt_pool :: pool_option

text \<open>
  A connection: the database file it opened and its \<^verbatim>\<open>__cid\<close>, the number
  \<^verbatim>\<open>_.uniqueId\<close> appended to the prefix \<^verbatim>\<open>__cid\<close>.
\<close>

record db_connection =
  db_filename :: string
  cid :: nat

text \<open>
  The variables of the module, all \<^verbatim>\<open>undefined\<close> when it is loaded (\<open>pool\<close>
  is then \<open>PoolUndefined\<close>), and the counter behind \<^verbatim>\<open>_.uniqueId\<close>.
\<close>

datatype pool_var = PoolUndefined | PoolOff | Pool pool_settings

record module_state =
  debug :: js_value
  pool :: pool_var
  connection :: "db_connection option"
  connectionSettings :: "connection_settings option"
  idCounter :: nat

definition initial_state :: module_state where
  "initial_state =
     \<lparr>debug = Undefined, pool = PoolUndefined, connection = None,
      connectionSettings = None, idCounter = 0\<rparr>"

definition getConnection :: "module_state \<Rightarrow> error + (db_connection \<times> module_state)" where
  "getConnection s =
     (case connectionSettings s of
        None \<Rightarrow> Inl (TypeError ''Cannot read property filename of undefined'')
      | Some cs \<Rightarrow>
          (let n = idCounter s + 1
           in Inr (\<lparr>db_filename = filename cs, cid = n\<rparr>, s\<lparr>idCounter := n\<rparr>)))"

definition pool_defaults :: pool_settings where
  "pool_defaults =
     [(''name'', Val (Str ''sqlite3'')), (''create'', ModuleCreate),
      (''destroy'', ModuleDestroy), (''max'', Val (Num 10)), (''min'', Val (Num 2)),
      (''idleTimeoutMillis'', Val (Num 30000)), (''log'', Val (Bool False))]"

definition initialize :: "options \<Rightarrow> module_state \<Rightarrow> error + module_state" where
  "initialize opts s =
     (case opt_connection opts of
        None \<Rightarrow> Inr s
      | Some c \<Rightarrow>
          (let s = s\<lparr>connectionSettings := Some c, debug := opt_debug opts\<rparr>
           in case opt_pool opts of
                PoolFalse \<Rightarrow>
                  (case getConnection (s\<lparr>pool := PoolOff\<rparr>) of
                     Inl e \<Rightarrow> Inl e
                   | Inr (conn, s') \<Rightarrow> Inr (s'\<lparr>connection := Some conn\<rparr>))
              | PoolAbsent \<Rightarrow> Inr (s\<lparr>pool := Pool (extend_object pool_defaults [])\<rparr>)
              | PoolSettings ps \<Rightarrow> Inr (s\<lparr>pool := Pool (extend_object pool_defaults ps)\<rparr>)))"

text \<open>
  The engine's driver and the pool are outside the module. A statement method of a
  connection (\<^verbatim>\<open>run\<close> or \<^verbatim>\<open>all\<close>) completes by calling its callback once,
  with the statement as \<^verbatim>\<open>this\<close> (it has a \<^verbatim>\<open>lastID\<close> property or not),
  an error or none, and a response; \<open>driver\<close> gives that completion. \<open>acquire\<close>
  gives what the pool hands to the callback of \<^verbatim>\<open>pool.acquire\<close>: an error or a
  client.
\<close>

datatype statement_method = Run | All

datatype response = NoResponse | ResultSet "row list" | InsertResult int "int option"

record statement =
  lastID :: "int option"
  changes :: "int option"

record completion =
  this_stmt :: statement
  err :: "string option"
  resp :: response

datatype acquired = AcquireError string | Client db_connection

record environment =
  acquire :: "pool_settings \<Rightarrow> acquired"
  driver :: "db_connection \<Rightarrow> statement_method \<Rightarrow> string \<Rightarrow> js_value list \<Rightarrow> completion"

text \<open>
  What a call of \<^verbatim>\<open>query\<close> makes happen outside the module, in order: the request
  to the pool, the statement run on a connection, the release of a client, and the
  caller's callback called with \<^verbatim>\<open>this\<close>, \<^verbatim>\<open>err\<close> and \<^verbatim>\<open>resp\<close>.
\<close>

datatype event =
  Acquire
| Exec db_connection statement_method "string" "js_value list"
| Release db_connection
| Callback statement "string option" response

text \<open>
  \<^verbatim>\<open>query\<close>. Its \<^verbatim>\<open>connection\<close> parameter hides the module's variable of
  that name. Calling \<^verbatim>\<open>acquire\<close> on a \<^verbatim>\<open>pool\<close> that is
  \<^verbatim>\<open>undefined\<close> or \<^verbatim>\<open>false\<close> throws a TypeError.
\<close>

definition query ::
  "module_state \<Rightarrow> environment \<Rightarrow> string \<Rightarrow> js_value list \<Rightarrow> db_connection option \<Rightarrow>
   js_value \<Rightarrow> error + event list" where
  "query s env querystring params conn type =
     (case conn of
        Some c \<Rightarrow>
          (let done = driver env c Run querystring params
           in Inr [Exec c Run querystring params,
                   Callback (this_stmt done) (err done) (resp done)])
      | None \<Rightarrow>
          (case pool s of
             Pool p \<Rightarrow>
               (case acquire env p of
                  AcquireError e \<Rightarrow> Inl (Error e)
                | Client client \<Rightarrow>
                    (let meth = (if type = Str ''insert'' \<or> type = Str ''update''
                                 then Run else All);
                         done = driver env client meth querystring params;
                         this = this_stmt done;
                         resp' = (case lastID this of
                                    Some i \<Rightarrow> InsertResult i (changes this)
                                  | None \<Rightarrow> resp done)
                     in Inr [Acquire, Exec client meth querystring params,
                             Release client, Callback this (err done) resp']))
           | PoolUndefined \<Rightarrow> Inl (TypeError ''Cannot call method acquire of undefined'')
           | PoolOff \<Rightarrow> Inl (TypeError ''pool.acquire is not a function'')))"

text \<open>
  A call is a no-op when it returns without an error and nothing has happened
  outside the module.
\<close>

definition no_op :: "error + event list \<Rightarrow> bool" where
  "no_op r = (r = Inr [])"

subsection \<open>Sample inputs\<close>

text \<open>
  A grammar whose helpers quote every identifier with \<open>wrapValue\<close>, and a generic
  insert compiler in the \<^verbatim>\<open>values (?, ...)\<close> form.
\<close>

definition sample_grammar :: "string base_grammar" where
  "sample_grammar =
     \<lparr>wrap = wrapValue,
      wrapTable = (\<lambda>t. case t of TableName n \<Rightarrow> wrapValue n | TableOf bp \<Rightarrow> wrapValue (bp_table bp)),
      columnize = (\<lambda>cs. join (map wrapValue cs) '', ''),
      parameterize = (\<lambda>r. case r of None \<Rightarrow> [] | Some r \<Rightarrow> join (map (\<lambda>_. ''?'') r) '', ''),
      getColumns = (\<lambda>bp. map (\<lambda>c. wrapValue (col_name c) @ '' '' @ col_type c) (bp_columns bp)),
      getDefaultValue = (\<lambda>v. case v of Str s \<Rightarrow> s | _ \<Rightarrow> ''1''),
      Grammar_compileInsert = (\<lambda>qb rows. ''insert into '' @ wrapValue (table qb) @ '' values (?)'')\<rparr>"

text \<open>
  A driver as the engine's is: \<^verbatim>\<open>run\<close> reports \<^verbatim>\<open>lastID\<close> and
  \<^verbatim>\<open>changes\<close> on the statement and passes no rows; \<^verbatim>\<open>all\<close> passes the
  rows. A statement on the table \<^verbatim>\<open>missing\<close> fails.
\<close>

definition sample_driver ::
  "db_connection \<Rightarrow> statement_method \<Rightarrow> string \<Rightarrow> js_value list \<Rightarrow> completion" where
  "sample_driver c m sql ps =
     (if sql = ''select * from missing'' then
        \<lparr>this_stmt = \<lparr>lastID = None, changes = None\<rparr>,
         err = Some ''SQLITE_ERROR: no such table: missing'', resp = NoResponse\<rparr>
      else case m of
        Run \<Rightarrow> \<lparr>this_stmt = \<lparr>lastID = Some 7, changes = Some 1\<rparr>,
                err = None, resp = NoResponse\<rparr>
      | All \<Rightarrow> \<lparr>this_stmt = \<lparr>lastID = None, changes = None\<rparr>,
                err = None, resp = ResultSet [[(''id'', Num 1)], [(''id'', Num 2)]]\<rparr>)"

definition sample_client :: db_connection where
  "sample_client = \<lparr>db_filename = ''db.sqlite'', cid = 1\<rparr>"

definition sample_env :: environment where
  "sample_env = \<lparr>acquire = (\<lambda>p. Client sample_client), driver = sample_driver\<rparr>"

definition pooled_state :: module_state where
  "pooled_state =
     \<lparr>debug = Undefined, pool = Pool pool_defaults, connection = None,
      connectionSettings = Some \<lparr>filename = ''db.sqlite''\<rparr>, idCounter = 0\<rparr>"

definition sample_rows :: "row list" where
  "sample_rows = [[(''a'', Num 1), (''b'', Num 2)], [(''a'', Num 3), (''b'', Num 4)]]"

definition sample_blueprint :: blueprint where
  "sample_blueprint =
     \<lparr>bp_table = ''users'',
      bp_columns =
        [\<lparr>col_name = ''id'', col_type = ''integer'', nullable = False,
          defaultValue = Undefined, autoIncrement = False\<rparr>,
         \<lparr>col_name = ''org_id'', col_type = ''integer'', nullable = True,
          defaultValue = Num 0, autoIncrement = False\<rparr>],
      commands =
        [\<lparr>name = ''primary'', columns = [''id''], on = [], references = []\<rparr>,
         \<lparr>name = ''foreign'', columns = [''org_id''], on = ''orgs'', references = [''id'']\<rparr>]\<rparr>"

section \<open>Properties\<close>

subsection \<open>Loops and joins in closed form\<close>

declare push_key_columns.simps [simp del]
declare push_joined_columns.simps [simp del]
declare foreign_loop.simps [simp del]

lemma join_Cons: "join (x # xs) sep = x @ concat (map (\<lambda>y. sep @ y) xs)"
  by (induction xs arbitrary: x) simp_all

lemma push_key_columns_drop:
  "l = length ks \<Longrightarrow>
   push_key_columns g ks i l cols = cols @ map (\<lambda>k. ''? as '' @ wrap g k) (drop i ks)"
proof (induction g ks i l cols rule: push_key_columns.induct)
  case (1 g ks i l cols)
  show ?case
  proof (cases "i < l")
    case True
    with 1 have "drop i ks = ks ! i # drop (Suc i) ks"
      by (simp add: Cons_nth_drop_Suc)
    with True 1 show ?thesis
      by (subst push_key_columns.simps) simp
  next
    case False
    with 1 show ?thesis
      by (subst push_key_columns.simps) simp
  qed
qed

lemma push_joined_columns_replicate:
  "push_joined_columns j i l cols = cols @ replicate (l - i) j"
proof (induction j i l cols rule: push_joined_columns.induct)
  case (1 j i l cols)
  show ?case
  proof (cases "i < l")
    case True
    then have "l - i = Suc (l - (i + 1))" by simp
    with True 1 show ?thesis
      by (subst push_joined_columns.simps) (simp add: replicate_app_Cons_same)
  next
    case False
    then show ?thesis
      by (subst push_joined_columns.simps) simp
  qed
qed

lemma foreign_loop_drop:
  "l = length fs \<Longrightarrow>
   foreign_loop g fs i l sql =
     sql @ concat (map (\<lambda>f. '', foreign key('' @ columnize g (columns f) @
                          '') references '' @ wrapTable g (TableName (on f)) @
                          ''('' @ columnize g (references f) @ '')'')
                   (drop i fs))"
proof (induction g fs i l sql rule: foreign_loop.induct)
  case (1 g fs i l sql)
  show ?case
  proof (cases "i < l")
    case True
    with 1 have "drop i fs = fs ! i # drop (Suc i) fs"
      by (simp add: Cons_nth_drop_Suc)
    with True 1 show ?thesis
      by (subst foreign_loop.simps) (simp add: Let_def)
  next
    case False
    with 1 show ?thesis
      by (subst foreign_loop.simps) simp
  qed
qed

lemma getCommandByName_find:
  "getCommandByName bp n = find (\<lambda>c. name c = n) (commands bp)"
proof -
  have "(case filter P xs of [] \<Rightarrow> None | c # _ \<Rightarrow> Some c) = find P xs"
    for P and xs :: "command list"
    by (induction xs) simp_all
  then show ?thesis
    by (simp add: getCommandByName_def getCommandsByName_def)
qed

subsection \<open>Multi-row inserts\<close>

lemma compileInsert_text:
  assumes "1 < length rows"
  shows "compileInsert g qb (Many rows) =
           Inr (Sql (''insert into '' @ wrapTable g (TableName (table qb)) @ '' ('' @
                     columnize g (keys (hd rows)) @ '') select '' @
                     join (replicate (length rows)
                             (join (map (\<lambda>k. ''? as '' @ wrap g k) (keys (hd rows))) '', ''))
                          '' union select ''))"
proof -
  from assms obtain r0 r1 rest where rows: "rows = r0 # r1 # rest"
    by (cases rows; cases "tl rows") auto
  show ?thesis
    unfolding rows
    by (simp add: compileInsert_def Let_def push_key_columns_drop
          push_joined_columns_replicate del: replicate.simps join.simps)
qed

lemma nth_concat_uniform:
  "\<forall>xs\<in>set xss. length xs = m \<Longrightarrow> i < length xss \<Longrightarrow> j < m \<Longrightarrow>
   concat xss ! (i * m + j) = xss ! i ! j"
proof (induction xss arbitrary: i)
  case Nil
  then show ?case by simp
next
  case (Cons xs xss)
  show ?case
  proof (cases i)
    case 0
    with Cons.prems show ?thesis by (simp add: nth_append)
  next
    case (Suc i')
    with Cons.prems have "concat xss ! (i' * m + j) = xss ! i' ! j"
      by (intro Cons.IH) auto
    moreover from Cons.prems have "length xs = m" by simp
    ultimately show ?thesis
      using Suc by (simp add: nth_append add.assoc)
  qed
qed

lemma length_concat_uniform:
  "\<forall>xs\<in>set xss. length xs = m \<Longrightarrow> length (concat xss) = length xss * m"
  by (induction xss) simp_all

lemma row_value_key:
  "k \<in> set (keys r) \<Longrightarrow> map_of r k = Some (row_value r k)"
  by (auto simp add: keys_def row_value_def map_of_eq_None_iff split: option.splits)

lemma insertBindings_concat:
  "rows \<noteq> [] \<Longrightarrow>
   insertBindings rows = concat (map (\<lambda>r. map (row_value r) (keys (hd rows))) rows)"
  by (cases rows) (simp_all add: insertBindings_def)

lemma insertBindings_length:
  "length (insertBindings rows) = length rows * length (keys (hd rows))"
proof (cases "rows = []")
  case True
  then show ?thesis by (simp add: insertBindings_def)
next
  case False
  have "length (concat (map (\<lambda>r. map (row_value r) (keys (hd rows))) rows)) =
          length (map (\<lambda>r. map (row_value r) (keys (hd rows))) rows) * length (keys (hd rows))"
    by (rule length_concat_uniform) auto
  with False show ?thesis
    by (simp add: insertBindings_concat)
qed

lemma insertBindings_nth:
  assumes "i < length rows" and "j < length (keys (hd rows))"
  shows "insertBindings rows ! (i * length (keys (hd rows)) + j) =
           row_value (rows ! i) (keys (hd rows) ! j)"
proof -
  let ?m = "length (keys (hd rows))"
  let ?xss = "map (\<lambda>r. map (row_value r) (keys (hd rows))) rows"
  from assms have ne: "rows \<noteq> []" by auto
  have "\<forall>xs\<in>set ?xss. length xs = ?m" by auto
  moreover from assms have "i < length ?xss" by simp
  ultimately have "concat ?xss ! (i * ?m + j) = ?xss ! i ! j"
    using assms(2) by (rule nth_concat_uniform)
  with assms ne show ?thesis
    by (simp add: insertBindings_concat)
qed

lemma insertBindings_contains:
  assumes "r \<in> set rows" and "distinct (keys r)"
      and "set (keys r) = set (keys (hd rows))"
  shows "set (map snd r) \<subseteq> set (insertBindings rows)"
proof
  fix v assume "v \<in> set (map snd r)"
  then obtain k where kv: "(k, v) \<in> set r" by auto
  with assms(2) have "map_of r k = Some v"
    by (simp add: keys_def)
  then have rv: "row_value r k = v" by (simp add: row_value_def)
  from kv have "k \<in> set (keys r)" by (force simp add: keys_def)
  with assms(3) have "k \<in> set (keys (hd rows))" by simp
  with rv have "v \<in> set (map (row_value r) (keys (hd rows)))" by force
  moreover from assms(1) have "rows \<noteq> []" by auto
  ultimately show "v \<in> set (insertBindings rows)"
    using assms(1) by (auto simp add: insertBindings_concat)
qed

lemma row_values_own_order:
  "distinct (keys r) \<Longrightarrow> map (row_value r) (keys r) = map snd r"
proof (induction r)
  case Nil
  then show ?case by (simp add: keys_def)
next
  case (Cons kv r)
  obtain k v where kv: "kv = (k, v)" by (cases kv)
  from Cons.prems kv have k: "k \<notin> set (keys r)" and d: "distinct (keys r)"
    by (simp_all add: keys_def)
  have "map (row_value (kv # r)) (keys r) = map (row_value r) (keys r)"
  proof (rule map_cong [OF refl])
    fix k' assume "k' \<in> set (keys r)"
    with k have "k' \<noteq> k" by auto
    then show "row_value (kv # r) k' = row_value r k'"
      by (simp add: row_value_def kv)
  qed
  with Cons.IH [OF d] show ?case
    by (simp add: keys_def kv row_value_def)
qed

lemma insertBindings_row_major:
  assumes "\<forall>r\<in>set rows. distinct (keys r) \<and> keys r = keys (hd rows)"
  shows "insertBindings rows = concat (map (map snd) rows)"
proof (cases "rows = []")
  case True
  then show ?thesis by (simp add: insertBindings_def)
next
  case False
  have "map (\<lambda>r. map (row_value r) (keys (hd rows))) rows = map (map snd) rows"
  proof (rule map_cong [OF refl])
    fix r assume "r \<in> set rows"
    with assms have "distinct (keys r)" and "keys (hd rows) = keys r" by auto
    then show "map (row_value r) (keys (hd rows)) = map snd r"
      by (simp add: row_values_own_order)
  qed
  then show ?thesis
    by (simp only: insertBindings_concat [OF False])
qed

text \<open>
  Claim C1. For an insert of \<open>N > 1\<close> rows, each an object whose key set is the first
  row's, \<^verbatim>\<open>compileInsert\<close> returns the text
  \<^verbatim>\<open>insert into <wrapped table> (<columnized keys>) select\<close> followed by \<open>N\<close> copies,
  joined by \<^verbatim>\<open> union select \<close>, of the clause that lists \<^verbatim>\<open>? as <wrapped key>\<close> for
  the first row's keys in their order, joined by a comma and a space. The bound
  parameter list has \<open>N\<close> times as many entries as the first row has keys; the entry
  at position \<open>i * m + j\<close> is row \<open>i\<close>'s value for the first row's key \<open>j\<close> (row-major,
  in the placeholders' order), and every value of every row is in the list. When the
  rows also list their keys in the first row's order, the list is the rows' values,
  one row after the other.
\<close>

theorem compileInsert_multi_row:
  assumes "1 < length rows"
      and "\<forall>r\<in>set rows. distinct (keys r) \<and> set (keys r) = set (keys (hd rows))"
  shows "compileInsert g qb (Many rows) =
           Inr (Sql (''insert into '' @ wrapTable g (TableName (table qb)) @ '' ('' @
                     columnize g (keys (hd rows)) @ '') select '' @
                     join (replicate (length rows)
                             (join (map (\<lambda>k. ''? as '' @ wrap g k) (keys (hd rows))) '', ''))
                          '' union select '')) \<and>
         length (insertBindings rows) = length rows * length (keys (hd rows)) \<and>
         (\<forall>i<length rows. \<forall>j<length (keys (hd rows)).
            map_of (rows ! i) (keys (hd rows) ! j) =
              Some (insertBindings rows ! (i * length (keys (hd rows)) + j))) \<and>
         (\<forall>r\<in>set rows. set (map snd r) \<subseteq> set (insertBindings rows)) \<and>
         ((\<forall>r\<in>set rows. keys r = keys (hd rows)) \<longrightarrow>
            insertBindings rows = concat (map (map snd) rows))"
proof (intro conjI allI impI ballI)
  show "compileInsert g qb (Many rows) =
           Inr (Sql (''insert into '' @ wrapTable g (TableName (table qb)) @ '' ('' @
                     columnize g (keys (hd rows)) @ '') select '' @
                     join (replicate (length rows)
                             (join (map (\<lambda>k. ''? as '' @ wrap g k) (keys (hd rows))) '', ''))
                          '' union select ''))"
    using assms(1) by (rule compileInsert_text)
next
  show "length (insertBindings rows) = length rows * length (keys (hd rows))"
    by (rule insertBindings_length)
next
  fix i j assume i: "i < length rows" and j: "j < length (keys (hd rows))"
  from i assms(2) have "set (keys (rows ! i)) = set (keys (hd rows))" by simp
  with j have "keys (hd rows) ! j \<in> set (keys (rows ! i))" by simp
  then have "map_of (rows ! i) (keys (hd rows) ! j) =
               Some (row_value (rows ! i) (keys (hd rows) ! j))"
    by (rule row_value_key)
  with i j show "map_of (rows ! i) (keys (hd rows) ! j) =
              Some (insertBindings rows ! (i * length (keys (hd rows)) + j))"
    by (simp add: insertBindings_nth)
next
  fix r assume "r \<in> set rows"
  with assms(2) show "set (map snd r) \<subseteq> set (insertBindings rows)"
    by (intro insertBindings_contains) auto
next
  assume "\<forall>r\<in>set rows. keys r = keys (hd rows)"
  with assms(2) show "insertBindings rows = concat (map (map snd) rows)"
    by (intro insertBindings_row_major) auto
qed

text \<open>
  The spec's example: the rows \<^verbatim>\<open>[{a:1,b:2},{a:3,b:4}]\<close> on the table \<^verbatim>\<open>t\<close>.
\<close>

theorem compileInsert_multi_row_witness:
  \<open>compileInsert sample_grammar \<lparr>table = ''t'', qb_from = ''t''\<rparr> (Many sample_rows) =
     Inr (Sql ''insert into "t" ("a", "b") select ? as "a", ? as "b" union select ? as "a", ? as "b"'') \<and>
   length (insertBindings sample_rows) = 4 \<and>
   insertBindings sample_rows = [Num 1, Num 2, Num 3, Num 4]\<close>
proof -
  have n: "1 < length sample_rows"
    by (simp add: sample_rows_def)
  have k: "\<forall>r\<in>set sample_rows.
             distinct (keys r) \<and> set (keys r) = set (keys (hd sample_rows))"
    by (simp add: sample_rows_def keys_def)
  have b: "insertBindings sample_rows = [Num 1, Num 2, Num 3, Num 4]"
    by (simp add: insertBindings_def sample_rows_def keys_def row_value_def)
  from compileInsert_multi_row [OF n k, of sample_grammar "\<lparr>table = ''t'', qb_from = ''t''\<rparr>"] b
  show ?thesis
    by (simp add: sample_grammar_def sample_rows_def keys_def wrapValue_def
          numeral_2_eq_2)
qed

subsection \<open>Truncate\<close>

text \<open>
  Claim C2. \<^verbatim>\<open>compileTruncate\<close> should return two statements, both built from the
  descriptor's table: the delete on \<^verbatim>\<open>sqlite_sequence\<close> bound to the table name, and
  the delete of all rows with no binding. The code reads \<^verbatim>\<open>query.from\<close> for the
  second statement where its parameter is \<^verbatim>\<open>qb\<close>: with no global \<^verbatim>\<open>query\<close>, the
  call on the descriptor of the table \<^verbatim>\<open>users\<close> throws a ReferenceError and returns
  no statement; with a global \<^verbatim>\<open>query\<close> for another table, the second statement
  deletes from that other table.
\<close>

theorem compileTruncate_reads_unbound_query:
  "compileTruncate sample_grammar Map.empty \<lparr>table = ''users'', qb_from = ''users''\<rparr> =
     Inl (ReferenceError ''query is not defined'') \<and>
   compileTruncate sample_grammar
       [''query'' \<mapsto> \<lparr>table = ''posts'', qb_from = ''posts''\<rparr>]
       \<lparr>table = ''users'', qb_from = ''users''\<rparr> =
     Inr [(''delete from sqlite_sequence where name = ?'', [''users'']),
          (''delete from '' @ wrapValue ''posts'', [])]"
  by (simp add: compileTruncate_def sample_grammar_def wrapValue_def)

subsection \<open>The connection manager\<close>

lemma query_on_connection:
  "query s env querystring params (Some c) type =
     Inr [Exec c Run querystring params,
          Callback (this_stmt (driver env c Run querystring params))
                   (err (driver env c Run querystring params))
                   (resp (driver env c Run querystring params))]"
  by (simp add: query_def Let_def)

lemma query_pooled_mutating:
  assumes "pool s = Pool p" and "acquire env p = Client client"
      and "type = Str ''insert'' \<or> type = Str ''update''"
      and "lastID (this_stmt (driver env client Run querystring params)) = Some i"
  shows "query s env querystring params None type =
           Inr [Acquire, Exec client Run querystring params, Release client,
                Callback (this_stmt (driver env client Run querystring params))
                  (err (driver env client Run querystring params))
                  (InsertResult i (changes (this_stmt (driver env client Run querystring params))))]"
  using assms by (auto simp add: query_def Let_def)

lemma query_pooled_read:
  assumes "pool s = Pool p" and "acquire env p = Client client"
      and "type \<noteq> Str ''insert''" and "type \<noteq> Str ''update''"
      and "lastID (this_stmt (driver env client All querystring params)) = None"
  shows "query s env querystring params None type =
           Inr [Acquire, Exec client All querystring params, Release client,
                Callback (this_stmt (driver env client All querystring params))
                  (err (driver env client All querystring params))
                  (resp (driver env client All querystring params))]"
  using assms by (simp add: query_def Let_def)

text \<open>
  Claim C3. On the pooled path (no connection passed, a pool configured, the pool
  handing out a client), whatever the statement's completion is (an error or none),
  \<^verbatim>\<open>query\<close> asks the pool, runs the statement on the client, releases that client,
  and only then calls the caller's callback with the completion's error: the client
  is released exactly once, after the statement and before the callback. The driver
  is taken to complete each statement by calling its callback once.
\<close>

theorem query_releases_once:
  assumes "pool s = Pool p" and "acquire env p = Client client"
  shows "\<exists>meth r tr.
           query s env querystring params None type = Inr tr \<and>
           tr = [Acquire, Exec client meth querystring params, Release client,
                 Callback (this_stmt (driver env client meth querystring params))
                          (err (driver env client meth querystring params)) r] \<and>
           count_list tr (Release client) = 1"
  using assms by (simp add: query_def Let_def)

text \<open>A failing insert and a successful select on the sample pool.\<close>

theorem query_releases_once_witness:
  "query pooled_state sample_env ''select * from missing'' [] None (Str ''insert'') =
     Inr [Acquire, Exec sample_client Run ''select * from missing'' [], Release sample_client,
          Callback \<lparr>lastID = None, changes = None\<rparr>
            (Some ''SQLITE_ERROR: no such table: missing'') NoResponse] \<and>
   query pooled_state sample_env ''select id from t'' [] None (Str ''select'') =
     Inr [Acquire, Exec sample_client All ''select id from t'' [], Release sample_client,
          Callback \<lparr>lastID = None, changes = None\<rparr> None
            (ResultSet [[(''id'', Num 1)], [(''id'', Num 2)]])]"
proof -
  have p: "pool pooled_state = Pool pool_defaults"
    by (simp add: pooled_state_def)
  have a: "acquire sample_env pool_defaults = Client sample_client"
    by (simp add: sample_env_def)
  from query_releases_once [OF p a, of "''select * from missing''" "[]" "Str ''insert''"]
       query_releases_once [OF p a, of "''select id from t''" "[]" "Str ''select''"]
  show ?thesis
    by (simp add: query_def pooled_state_def sample_env_def sample_driver_def)
qed

text \<open>
  Claim C7, as amended. When \<^verbatim>\<open>initialize\<close> is called without a connection
  configuration it returns with every variable of the module as it was, so a
  manager that was uninitialized stays so. A later \<^verbatim>\<open>query\<close> is not a no-op: with
  no connection passed it throws a TypeError at \<^verbatim>\<open>pool.acquire\<close>, before any
  statement runs and without calling the callback; with a connection passed it runs
  the statement on that connection.
\<close>

theorem initialize_without_connection:
  assumes "opt_connection opts = None"
  shows "initialize opts s = Inr s \<and>
         (pool s = PoolUndefined \<longrightarrow>
            query s env querystring params None type =
              Inl (TypeError ''Cannot call method acquire of undefined'')) \<and>
         query s env querystring params (Some c) type =
           Inr [Exec c Run querystring params,
                Callback (this_stmt (driver env c Run querystring params))
                         (err (driver env c Run querystring params))
                         (resp (driver env c Run querystring params))]"
  using assms by (simp add: initialize_def query_def Let_def)

theorem initialize_without_connection_witness:
  "initialize \<lparr>opt_connection = None, opt_debug = Undefined, opt_pool = PoolAbsent\<rparr>
       initial_state = Inr initial_state \<and>
   query initial_state sample_env ''select 1'' [] None (Str ''select'') =
     Inl (TypeError ''Cannot call method acquire of undefined'') \<and>
   query initial_state sample_env ''select 1'' [] (Some sample_client) (Str ''select'') =
     Inr [Exec sample_client Run ''select 1'' [],
          Callback \<lparr>lastID = Some 7, changes = Some 1\<rparr> None NoResponse]"
  using initialize_without_connection
    [of "\<lparr>opt_connection = None, opt_debug = Undefined, opt_pool = PoolAbsent\<rparr>"
        initial_state sample_env "''select 1''" "[]" "Str ''select''" sample_client]
  by (simp add: initial_state_def sample_env_def sample_driver_def)

text \<open>
  Claim C7 as stated fails: after an \<^verbatim>\<open>initialize\<close> without a connection
  configuration on the freshly loaded module, a \<^verbatim>\<open>query\<close> is not a no-op.
\<close>

theorem later_query_not_no_op:
  "initialize \<lparr>opt_connection = None, opt_debug = Undefined, opt_pool = PoolAbsent\<rparr>
       initial_state = Inr initial_state \<and>
   \<not> no_op (query initial_state sample_env ''select 1'' [] None (Str ''select''))"
  by (simp add: initialize_def query_def initial_state_def no_op_def)

text \<open>
  Claim C8. Every call of \<^verbatim>\<open>query\<close> should report \<^verbatim>\<open>{insertId, changes}\<close> for
  an insert or update and the full result set for a read. The pooled path does so;
  the path taken when a connection is passed calls \<^verbatim>\<open>run\<close> whatever the type and
  hands the caller's callback to the driver as it is. On the sample driver: a select
  on a passed connection reports no rows where the pooled path reports the result
  set, and an insert on a passed connection reports no \<^verbatim>\<open>{insertId, changes}\<close>
  where the pooled path reports it.
\<close>

theorem query_on_connection_ignores_type:
  "query pooled_state sample_env ''select id from t'' [] (Some sample_client) (Str ''select'') =
     Inr [Exec sample_client Run ''select id from t'' [],
          Callback \<lparr>lastID = Some 7, changes = Some 1\<rparr> None NoResponse] \<and>
   query pooled_state sample_env ''select id from t'' [] None (Str ''select'') =
     Inr [Acquire, Exec sample_client All ''select id from t'' [], Release sample_client,
          Callback \<lparr>lastID = None, changes = None\<rparr> None
            (ResultSet [[(''id'', Num 1)], [(''id'', Num 2)]])] \<and>
   query pooled_state sample_env ''insert into t default values'' []
       (Some sample_client) (Str ''insert'') =
     Inr [Exec sample_client Run ''insert into t default values'' [],
          Callback \<lparr>lastID = Some 7, changes = Some 1\<rparr> None NoResponse] \<and>
   query pooled_state sample_env ''insert into t default values'' [] None (Str ''insert'') =
     Inr [Acquire, Exec sample_client Run ''insert into t default values'' [],
          Release sample_client,
          Callback \<lparr>lastID = Some 7, changes = Some 1\<rparr> None (InsertResult 7 (Some 1))]"
  by (simp add: query_def pooled_state_def sample_env_def sample_driver_def)

subsection \<open>Single-row inserts\<close>

text \<open>
  Claim C4. For exactly one row, passed as an array of one row or as the row
  itself, \<^verbatim>\<open>compileInsert\<close> returns what the generic grammar's
  \<^verbatim>\<open>compileInsert\<close> returns for the same builder and the array of that row,
  whatever that output holds.
\<close>

theorem compileInsert_single_row:
  "compileInsert g qb (Many [r]) = Inr (Generic (Grammar_compileInsert g qb [r])) \<and>
   compileInsert g qb (One r) = Inr (Generic (Grammar_compileInsert g qb [r]))"
  by (simp add: compileInsert_def)

subsection \<open>Create table\<close>

text \<open>
  Claim C5. For a blueprint with a primary command (the first one is taken),
  \<^verbatim>\<open>compileCreateTable\<close> returns one string: \<^verbatim>\<open>create table <table> (\<close>, the
  column definitions joined by a comma and a space, then for each foreign command
  in order the clause \<^verbatim>\<open>, foreign key(<columns>) references <table>(<columns>)\<close>,
  then \<^verbatim>\<open>, primary key (<columns>)\<close>, then the closing parenthesis. No other
  statement is produced: the result is that one string, and \<^verbatim>\<open>compileForeign\<close>
  compiles to nothing.
\<close>

theorem compileCreateTable_inline_keys:
  assumes "find (\<lambda>c. name c = ''primary'') (commands bp) = Some primary"
  shows "compileCreateTable g bp cmd =
           ''create table '' @ wrapTable g (TableOf bp) @ '' ('' @
           join (getColumns g bp) '', '' @
           concat (map (\<lambda>f. '', foreign key('' @ columnize g (columns f) @
                          '') references '' @ wrapTable g (TableName (on f)) @
                          ''('' @ columnize g (references f) @ '')'')
                   (filter (\<lambda>c. name c = ''foreign'') (commands bp))) @
           '', primary key ('' @ columnize g (columns primary) @ '')'' @ '')'' \<and>
         compileForeign g bp cmd = None"
  using assms
  by (simp add: compileCreateTable_def addForeignKeys_def addPrimaryKeys_def Let_def
        foreign_loop_drop getCommandByName_find getCommandsByName_def compileForeign_def)

theorem compileCreateTable_inline_keys_witness:
  \<open>compileCreateTable sample_grammar sample_blueprint (hd (commands sample_blueprint)) =
     ''create table "users" ("id" integer, "org_id" integer, foreign key("org_id") references "orgs"("id"), primary key ("id"))''\<close>
proof -
  have p: "find (\<lambda>c. name c = ''primary'') (commands sample_blueprint) =
             Some \<lparr>name = ''primary'', columns = [''id''], on = [], references = []\<rparr>"
    by (simp add: sample_blueprint_def)
  from compileCreateTable_inline_keys [OF p, of sample_grammar]
  show ?thesis
    by (simp add: sample_grammar_def sample_blueprint_def wrapValue_def)
qed

subsection \<open>Drop column\<close>

text \<open>
  Claim C6. For every blueprint and command, \<^verbatim>\<open>compileDropColumn\<close> throws the
  error ``Drop column not supported for SQLite.'': the same error for every input,
  and never a DDL text.
\<close>

theorem compileDropColumn_unsupported:
  "compileDropColumn g bp cmd = Inl (Error ''Drop column not supported for SQLite.'') \<and>
   compileDropColumn g bp cmd = compileDropColumn g' bp' cmd' \<and>
   (\<forall>ddl. compileDropColumn g bp cmd \<noteq> Inr ddl)"
  by (simp add: compileDropColumn_def)

subsection \<open>Order by\<close>

text \<open>
  Claim C9. \<^verbatim>\<open>compileOrders\<close> returns nothing for the empty list; for a list with a
  first entry and further ones it returns \<^verbatim>\<open>order by\<close> and a space, then for the
  first entry its wrapped column, \<^verbatim>\<open> collate nocase \<close> and its direction, then for
  each further entry in order a comma, a space and the same three parts.
\<close>

theorem compileOrders_clause:
  "compileOrders g qb [] = None \<and>
   compileOrders g qb (ord # ords) =
     Some (''order by '' @ wrap g (column ord) @ '' collate nocase '' @ direction ord @
           concat (map (\<lambda>e. '', '' @ wrap g (column e) @ '' collate nocase '' @ direction e)
                     ords))"
  by (simp add: compileOrders_def join_Cons comp_def)

text \<open>The spec's example: one entry, the column \<^verbatim>\<open>name\<close> ascending.\<close>

theorem compileOrders_clause_witness:
  \<open>compileOrders sample_grammar \<lparr>table = ''t'', qb_from = ''t''\<rparr> [] = None \<and>
   compileOrders sample_grammar \<lparr>table = ''t'', qb_from = ''t''\<rparr>
     [\<lparr>column = ''name'', direction = ''asc''\<rparr>, \<lparr>column = ''age'', direction = ''desc''\<rparr>] =
     Some ''order by "name" collate nocase asc, "age" collate nocase desc''\<close>
  using compileOrders_clause
    [of sample_grammar "\<lparr>table = ''t'', qb_from = ''t''\<rparr>"
        "\<lparr>column = ''name'', direction = ''asc''\<rparr>"
        "[\<lparr>column = ''age'', direction = ''desc''\<rparr>]"]
  by (simp add: sample_grammar_def wrapValue_def)

subsection \<open>Column defaults\<close>

text \<open>
  Claim C10. \<^verbatim>\<open>modifyDefault\<close> emits nothing for a column whose default value is
  falsy, such as 0, the empty string or \<^verbatim>\<open>false\<close>, and only for a truthy one the
  fragment \<^verbatim>\<open> default '<value>'\<close>, the value as \<^verbatim>\<open>getDefaultValue\<close> gives it
  (character 0x27 is the single quote).
\<close>

theorem modifyDefault_falsy:
  "(\<not> truthy (defaultValue col) \<longrightarrow> modifyDefault g bp col = None) \<and>
   (truthy (defaultValue col) \<longrightarrow>
      modifyDefault g bp col =
        Some ('' default '' @ [CHR 0x27] @ getDefaultValue g (defaultValue col) @ [CHR 0x27])) \<and>
   (defaultValue col \<in> {Num 0, Str [], Bool False} \<longrightarrow> modifyDefault g bp col = None)"
  by (auto simp add: modifyDefault_def)

theorem modifyDefault_falsy_witness:
  "modifyDefault sample_grammar sample_blueprint
     \<lparr>col_name = ''org_id'', col_type = ''integer'', nullable = True,
      defaultValue = Num 0, autoIncrement = False\<rparr> = None \<and>
   modifyDefault sample_grammar sample_blueprint
     \<lparr>col_name = ''title'', col_type = ''string'', nullable = True,
      defaultValue = Str ''x'', autoIncrement = False\<rparr> =
     Some ('' default '' @ [CHR 0x27] @ ''x'' @ [CHR 0x27])"
  using modifyDefault_falsy
      [of "\<lparr>col_name = ''org_id'', col_type = ''integer'', nullable = True,
            defaultValue = Num 0, autoIncrement = False\<rparr>" sample_grammar sample_blueprint]
    modifyDefault_falsy
      [of "\<lparr>col_name = ''title'', col_type = ''string'', nullable = True,
            defaultValue = Str ''x'', autoIncrement = False\<rparr>" sample_grammar sample_blueprint]
  by (simp add: sample_grammar_def)

end
